theory Spec2Isabelle
  imports
    Main
    "HOL-Library.AList"
    "HOL-Library.Char_ord"
    "HOL-Library.List_Lexorder"
    "HOL-Library.Multiset"
    "HOL-Library.Sublist"
begin

section \<open>Strings and characters of the Python sources\<close>

text \<open>
  A Python \<open>str\<close> is a sequence of code points. The model uses \<^typ>\<open>string\<close>; a
  \<^typ>\<open>char\<close> stands for the code point of the same number, so the model covers the
  strings over U+0000 .. U+00FF. The three character classes below are the ones the sources
  use through \<open>str.strip\<close>, \<open>str.isdigit\<close> and the \<open>re\<close> classes \<open>\s\<close> and \<open>\w\<close>
  (for \<open>str\<close> patterns these are the Unicode classes), restricted to that range.
\<close>

datatype py_error = IndexError | StopIteration | KeyError string | ValueError string

definition code :: "char \<Rightarrow> nat" where
  "code c = of_char c"

definition squote :: char where
  "squote = CHR 0x27"

definition dquote :: char where
  "dquote = CHR 0x22"

definition newline :: char where
  "newline = CHR 0x0A"

definition backslash :: char where
  "backslash = CHR 0x5C"

text \<open>\<open>str.isspace\<close> for one character, which is also \<open>\s\<close>.\<close>

definition is_space :: "char \<Rightarrow> bool" where
  "is_space c = (let n = code c in
     (9 \<le> n \<and> n \<le> 13) \<or> (28 \<le> n \<and> n \<le> 32) \<or> n = 133 \<or> n = 160)"

text \<open>The class \<open>[A-Za-z0-9_]\<close>.\<close>

definition is_ascii_word :: "char \<Rightarrow> bool" where
  "is_ascii_word c = (let n = code c in
     (48 \<le> n \<and> n \<le> 57) \<or> (65 \<le> n \<and> n \<le> 90) \<or> n = 95 \<or> (97 \<le> n \<and> n \<le> 122))"

text \<open>
  \<open>\w\<close>: the alphanumeric characters (\<open>str.isalnum\<close>) and the underscore. Beyond ASCII
  these are the letters U+00AA, U+00B5, U+00BA, U+00C0 .. U+00D6, U+00D8 .. U+00F6,
  U+00F8 .. U+00FF and the numeric characters U+00B2, U+00B3, U+00B9, U+00BC .. U+00BE.
\<close>

definition is_word :: "char \<Rightarrow> bool" where
  "is_word c = (let n = code c in
     is_ascii_word c \<or> n = 170 \<or> n = 178 \<or> n = 179 \<or> n = 181 \<or> n = 185 \<or> n = 186 \<or>
     (188 \<le> n \<and> n \<le> 190) \<or> (192 \<le> n \<and> n \<le> 214) \<or> (216 \<le> n \<and> n \<le> 246) \<or>
     (248 \<le> n \<and> n \<le> 255))"

text \<open>\<open>str.isdigit\<close> for one character: the ASCII digits and the superscripts 1, 2, 3.\<close>

definition is_digit :: "char \<Rightarrow> bool" where
  "is_digit c = (let n = code c in (48 \<le> n \<and> n \<le> 57) \<or> n = 178 \<or> n = 179 \<or> n = 185)"


text \<open>\<open>s.strip()\<close>: whitespace removed at both ends.\<close>

definition strip :: "string \<Rightarrow> string" where
  "strip s = rev (dropWhile is_space (rev (dropWhile is_space s)))"

section \<open>Key sanitizer (\<open>LocaleManager._validate_key\<close>)\<close>

text \<open>
  \<open>re.sub(r'[^\w\.]', '_', key)\<close> replaces each character that is neither a word
  character nor a dot. \<open>key[0]\<close> raises \<open>IndexError\<close> on the empty string; the model keeps
  that branch.
\<close>

definition sub_non_word :: "string \<Rightarrow> string" where
  "sub_non_word key = map (\<lambda>c. if is_word c \<or> c = CHR ''.'' then c else CHR ''_'') key"

definition validate_key :: "string \<Rightarrow> py_error + string" where
  "validate_key key =
     (if key = [] \<or> strip key = [] then Inr ''default_key''
      else (case sub_non_word key of
              [] \<Rightarrow> Inl IndexError
            | c # cs \<Rightarrow> if is_digit c then Inr (''k_'' @ c # cs) else Inr (c # cs)))"







lemma word_not_space: "is_word c \<Longrightarrow> \<not> is_space c"
  by (auto simp: is_word_def is_ascii_word_def is_space_def Let_def)

lemma validate_key_total: "\<exists>r. validate_key key = Inr r"
  by (cases key) (auto simp: validate_key_def sub_non_word_def)





section \<open>Nested documents (\<open>excel_to_js.py\<close>)\<close>

text \<open>
  A Python \<open>dict\<close> keeps its keys in insertion order and assigning to a key that is already
  there keeps the key's place: an association list with \<^const>\<open>AList.update\<close>,
  \<^const>\<open>map_of\<close> and \<^const>\<open>AList.delete\<close>. A nested document has strings at its
  leaves and dictionaries inside.
\<close>

datatype node = Leaf string | Dict "(string \<times> node) list"

type_synonym pydict = "(string \<times> node) list"

text \<open>\<open>s.replace(old, new)\<close> for a non-empty \<open>old\<close>: occurrences from the left, not overlapping.\<close>

function replace_all :: "string \<Rightarrow> string \<Rightarrow> string \<Rightarrow> string" where
  "replace_all old new [] = []"
| "replace_all old new (c # cs) =
     (if old \<noteq> [] \<and> prefix old (c # cs)
      then new @ replace_all old new (drop (length old) (c # cs))
      else c # replace_all old new cs)"
  by pat_completeness auto
termination
  by (relation "measure (\<lambda>(old, new, s). length s)") (auto simp: Suc_le_eq)

text \<open>\<open>_escape_string\<close> on a string cell.\<close>

definition escape_string :: "string \<Rightarrow> string" where
  "escape_string s =
     replace_all ''<br/>'' [backslash, CHR ''n'']
       (replace_all [newline] [backslash, CHR ''n'']
         (replace_all [squote] [backslash, squote] s))"

text \<open>\<open>key.split('.')\<close>: always at least one part.\<close>

fun split_on :: "char \<Rightarrow> string \<Rightarrow> string list" where
  "split_on d [] = [[]]"
| "split_on d (c # cs) =
     (if c = d then [] # split_on d cs
      else (case split_on d cs of [] \<Rightarrow> [[c]] | p # ps \<Rightarrow> (c # p) # ps))"

text \<open>
  The descent of \<open>generate_js_files\<close> along \<open>parts[:-1]\<close>, with the final assignment
  \<open>current_dict[parts[-1]] = value\<close>. A missing segment gets an empty dictionary, a
  segment that holds a string is turned into a dictionary that keeps the string under
  \<open>_value\<close>.
\<close>

fun set_path :: "string list \<Rightarrow> string \<Rightarrow> pydict \<Rightarrow> pydict" where
  "set_path [] v d = d"
| "set_path [p] v d = AList.update p (Leaf v) d"
| "set_path (p # q # ps) v d =
     (let child = (case map_of d p of
                     None \<Rightarrow> []
                   | Some (Dict c) \<Rightarrow> c
                   | Some (Leaf s) \<Rightarrow> [(''_value'', Leaf s)])
      in AList.update p (Dict (set_path (q # ps) v child)) d)"

text \<open>The branch for a key without a dot.\<close>

definition set_direct :: "string \<Rightarrow> string \<Rightarrow> pydict \<Rightarrow> pydict" where
  "set_direct key v d =
     (case map_of d key of
        Some (Dict c) \<Rightarrow> AList.update key (Dict (AList.update ''_value'' (Leaf v) c)) d
      | _ \<Rightarrow> AList.update key (Leaf v) d)"

fun validate_keys :: "string list \<Rightarrow> py_error + string list" where
  "validate_keys [] = Inr []"
| "validate_keys (p # ps) =
     (case validate_key p of
        Inl e \<Rightarrow> Inl e
      | Inr p' \<Rightarrow> (case validate_keys ps of Inl e \<Rightarrow> Inl e | Inr ps' \<Rightarrow> Inr (p' # ps')))"

text \<open>
  One row of the table for one locale: \<open>(class, key, value)\<close>, the value \<open>None\<close> where
  the cell is empty (\<open>pd.isna\<close>). The cells of the model are strings.
\<close>

type_synonym locale_dict = "(string \<times> pydict) list"

definition nest_row :: "string \<times> string \<times> string option \<Rightarrow> locale_dict \<Rightarrow> py_error + locale_dict" where
  "nest_row row ld =
     (case row of (class_name, key, value) \<Rightarrow>
        (case value of
           None \<Rightarrow> Inr ld
         | Some v \<Rightarrow>
            (case validate_key class_name of
               Inl e \<Rightarrow> Inl e
             | Inr cn \<Rightarrow>
                (case validate_key key of
                   Inl e \<Rightarrow> Inl e
                 | Inr k \<Rightarrow>
                    (let ld1 = (if map_of ld cn = None then AList.update cn [] ld else ld);
                         g = (case map_of ld1 cn of Some g \<Rightarrow> g | None \<Rightarrow> [])
                     in if CHR ''.'' \<in> set k
                        then (case validate_keys (split_on CHR ''.'' k) of
                                Inl e \<Rightarrow> Inl e
                              | Inr parts \<Rightarrow>
                                  Inr (AList.update cn (set_path parts (escape_string v) g) ld1))
                        else Inr (AList.update cn (set_direct k (escape_string v) g) ld1))))))"

fun nest_rows :: "(string \<times> string \<times> string option) list \<Rightarrow> locale_dict \<Rightarrow> py_error + locale_dict" where
  "nest_rows [] ld = Inr ld"
| "nest_rows (r # rs) ld = (case nest_row r ld of Inl e \<Rightarrow> Inl e | Inr ld' \<Rightarrow> nest_rows rs ld')"

subsection \<open>The serializer (\<open>generate_nested_content\<close>)\<close>

definition indent_str :: "nat \<Rightarrow> string" where
  "indent_str n = concat (replicate n ''  '')"

text \<open>
  An f-string prints a string as it is and a dictionary through \<open>str\<close>; the latter is
  Python's own and stays a parameter \<open>R\<close>.
\<close>

fun py_str :: "(pydict \<Rightarrow> string) \<Rightarrow> node \<Rightarrow> string" where
  "py_str R (Leaf s) = s"
| "py_str R (Dict d) = R d"

definition value_line :: "nat \<Rightarrow> string \<Rightarrow> string \<Rightarrow> string" where
  "value_line n key v = indent_str n @ key @ '': '' @ [squote] @ v @ [squote] @ '','' @ [newline]"

definition open_line :: "nat \<Rightarrow> string \<Rightarrow> string" where
  "open_line n key = indent_str n @ key @ '': {'' @ [newline]"

definition close_line :: "nat \<Rightarrow> string" where
  "close_line n = indent_str n @ ''},'' @ [newline]"

lemma size_delete_le:
  "size_list (size_prod (\<lambda>_. 0) size) (AList.delete k c) \<le> size_list (size_prod (\<lambda>_. 0) size) c"
  by (induction c) (auto simp: AList.delete_eq)

function generate_nested_content :: "(pydict \<Rightarrow> string) \<Rightarrow> pydict \<Rightarrow> nat \<Rightarrow> string" where
  "generate_nested_content R [] n = []"
| "generate_nested_content R ((key, Leaf v) # rest) n =
     value_line n key v @ generate_nested_content R rest n"
| "generate_nested_content R ((key, Dict c) # rest) n =
     (case map_of c ''_value'' of
        Some special_value \<Rightarrow>
          value_line n key (py_str R special_value) @
          (if AList.delete ''_value'' c \<noteq> []
           then open_line n (key @ ''_nested'') @
                generate_nested_content R (AList.delete ''_value'' c) (n + 1) @ close_line n
           else [])
      | None \<Rightarrow>
          open_line n key @ generate_nested_content R c (n + 1) @ close_line n)
     @ generate_nested_content R rest n"
  by pat_completeness auto
termination
proof (relation "measure (\<lambda>(R, d, n). size_list (size_prod (\<lambda>_. 0) size) d)")
  fix R :: "pydict \<Rightarrow> string" and key :: string and c rest :: pydict and n :: nat
  have "size_list (size_prod (\<lambda>_. 0) size) (AList.delete ''_value'' c)
      < size_list (size_prod (\<lambda>_. 0) size) ((key, Dict c) # rest)"
    using size_delete_le [of "''_value''" c] by simp
  then show "((R, AList.delete ''_value'' c, n + 1), R, (key, Dict c) # rest, n)
      \<in> measure (\<lambda>(R, d, n). size_list (size_prod (\<lambda>_. 0) size) d)"
    by simp
qed auto

text \<open>The text of one locale file, as \<open>generate_js_files\<close> writes it.\<close>

definition group_text :: "(pydict \<Rightarrow> string) \<Rightarrow> string \<times> pydict \<Rightarrow> string" where
  "group_text R g = (case g of (class_name, class_dict) \<Rightarrow>
     open_line 1 class_name @ generate_nested_content R class_dict 2 @ close_line 1)"

definition js_content :: "(pydict \<Rightarrow> string) \<Rightarrow> locale_dict \<Rightarrow> string" where
  "js_content R ld = ''export default {'' @ [newline] @ concat (map (group_text R) ld) @ ''};''"


lemma gnc_append:
  "generate_nested_content R (xs @ ys) n =
     generate_nested_content R xs n @ generate_nested_content R ys n"
  by (induction R xs n rule: generate_nested_content.induct) (auto split: option.splits)

lemma delete_empty_iff:
  "AList.delete k c \<noteq> [] \<longleftrightarrow> (\<exists>k' v. (k', v) \<in> set c \<and> k' \<noteq> k)"
  by (auto simp: AList.delete_eq filter_empty_conv)

lemmas eval_defs = validate_key_def sub_non_word_def strip_def is_space_def is_digit_def
  is_word_def is_ascii_word_def code_def Let_def nest_row_def set_direct_def escape_string_def
  squote_def dquote_def newline_def backslash_def

text \<open>
  Claim C4. A node that holds a sentinel string under \<open>_value\<close> is written, wherever it
  stands among its siblings, as the direct assignment \<open>key: 'value',\<close> followed by the
  group \<open>key_nested: { ... },\<close> of its other children; the group is written exactly when
  there is a child besides the sentinel.
\<close>

theorem sentinel_node_serialization:
  assumes "map_of c ''_value'' = Some (Leaf s)"
  shows "generate_nested_content R (xs @ (key, Dict c) # ys) n =
     generate_nested_content R xs n @
     indent_str n @ key @ '': '' @ [squote] @ s @ [squote] @ '','' @ [newline] @
     (if \<exists>k v. (k, v) \<in> set c \<and> k \<noteq> ''_value''
      then indent_str n @ key @ ''_nested: {'' @ [newline] @
           generate_nested_content R (filter (\<lambda>(k, v). k \<noteq> ''_value'') c) (n + 1) @
           indent_str n @ ''},'' @ [newline]
      else []) @
     generate_nested_content R ys n"
proof -
  have f: "AList.delete ''_value'' c = filter (\<lambda>(k, v). k \<noteq> ''_value'') c"
    by (auto simp: AList.delete_eq intro: filter_cong)
  show ?thesis
    using assms delete_empty_iff [of "''_value''" c]
    by (simp add: gnc_append value_line_def open_line_def close_line_def f)
qed

text \<open>
  Scenario 3 of the specification: the rows \<open>a = X\<close> and \<open>a.b = Y\<close> of one group nest to
  a node with the sentinel and the child, and the node is written as both lines; a node
  with the sentinel alone is written as the direct assignment only.
\<close>

theorem sentinel_node_serialization_witness:
  "map_of [(''_value'', Leaf ''X''), (''b'', Leaf ''Y'')] ''_value'' = Some (Leaf ''X'') \<and>
   nest_rows [(''g'', ''a'', Some ''X''), (''g'', ''a.b'', Some ''Y'')] [] =
     Inr [(''g'', [(''a'', Dict [(''_value'', Leaf ''X''), (''b'', Leaf ''Y'')])])] \<and>
   generate_nested_content (\<lambda>d. [])
       [(''a'', Dict [(''_value'', Leaf ''X''), (''b'', Leaf ''Y'')])] 2 =
     ''    a: '' @ [squote] @ ''X'' @ [squote] @ '','' @ [newline] @
     ''    a_nested: {'' @ [newline] @
     ''      b: '' @ [squote] @ ''Y'' @ [squote] @ '','' @ [newline] @
     ''    },'' @ [newline] \<and>
   generate_nested_content (\<lambda>d. []) [(''a'', Dict [(''_value'', Leaf ''X'')])] 2 =
     ''    a: '' @ [squote] @ ''X'' @ [squote] @ '','' @ [newline]"
proof -
  have h1: "map_of [(''_value'', Leaf ''X''), (''b'', Leaf ''Y'')] ''_value'' = Some (Leaf ''X'')"
    by simp
  have h2: "map_of [(''_value'', Leaf ''X'')] ''_value'' = Some (Leaf ''X'')"
    by simp
  have e1: "\<exists>k v. (k, v) \<in> set [(''_value'', Leaf ''X''), (''b'', Leaf ''Y'')] \<and> k \<noteq> ''_value''"
    by (intro exI [of _ "''b''"] exI [of _ "Leaf ''Y''"]) simp
  have e2: "\<not> (\<exists>k v. (k, v) \<in> set [(''_value'', Leaf ''X'')] \<and> k \<noteq> ''_value'')"
    by simp
  have i: "indent_str 2 = ''    ''" "indent_str 3 = ''      ''"
    by (simp_all add: indent_str_def eval_nat_numeral)
  have n: "nest_rows [(''g'', ''a'', Some ''X''), (''g'', ''a.b'', Some ''Y'')] [] =
     Inr [(''g'', [(''a'', Dict [(''_value'', Leaf ''X''), (''b'', Leaf ''Y'')])])]"
    by (simp add: eval_defs)
  have g1: "generate_nested_content (\<lambda>d. [])
       [(''a'', Dict [(''_value'', Leaf ''X''), (''b'', Leaf ''Y'')])] 2 =
     ''    a: '' @ [squote] @ ''X'' @ [squote] @ '','' @ [newline] @
     ''    a_nested: {'' @ [newline] @
     ''      b: '' @ [squote] @ ''Y'' @ [squote] @ '','' @ [newline] @
     ''    },'' @ [newline]"
    using sentinel_node_serialization [OF h1, of "\<lambda>d. []" "[]" "''a''" "[]" 2]
    unfolding if_P [OF e1] by (simp add: value_line_def open_line_def close_line_def i)
  have g2: "generate_nested_content (\<lambda>d. []) [(''a'', Dict [(''_value'', Leaf ''X'')])] 2 =
     ''    a: '' @ [squote] @ ''X'' @ [squote] @ '','' @ [newline]"
    using sentinel_node_serialization [OF h2, of "\<lambda>d. []" "[]" "''a''" "[]" 2]
    unfolding if_not_P [OF e2] by (simp add: i)
  show ?thesis
    using h1 n g1 g2 by blast
qed

text \<open>
  Claim C3. Both conflict rules are in the code: a string met on the way down is moved
  under \<open>_value\<close> of the dictionary that replaces it, and a key without a dot that already
  holds a dictionary gets its string under \<open>_value\<close> of that dictionary.
\<close>

lemma set_path_moves_scalar_to_sentinel:
  "map_of d p = Some (Leaf s) \<Longrightarrow>
   map_of (set_path (p # q # ps) v d) p = Some (Dict (set_path (q # ps) v [(''_value'', Leaf s)]))"
  by (simp add: update_conv')

lemma set_direct_keeps_mapping:
  "map_of d key = Some (Dict c) \<Longrightarrow>
   map_of (set_direct key v d) key = Some (Dict (AList.update ''_value'' (Leaf v) c))"
  by (simp add: set_direct_def update_conv')

text \<open>
  The last segment of a dotted key is assigned without the second rule: the rows
  \<open>a.b.c = X\<close> and then \<open>a.b = Y\<close> leave \<open>b = Y\<close> alone, and the dictionary that held
  \<open>c = X\<close> is gone. In the other order of the rows nothing is lost.
\<close>

theorem nest_dotted_leaf_overwrites_mapping:
  "nest_rows [(''g'', ''a.b.c'', Some ''X''), (''g'', ''a.b'', Some ''Y'')] [] =
     Inr [(''g'', [(''a'', Dict [(''b'', Leaf ''Y'')])])] \<and>
   nest_rows [(''g'', ''a.b'', Some ''Y''), (''g'', ''a.b.c'', Some ''X'')] [] =
     Inr [(''g'', [(''a'', Dict [(''b'', Dict [(''_value'', Leaf ''Y''), (''c'', Leaf ''X'')])])])]"
  by (simp add: eval_defs)

section \<open>Flat JSON documents from a table (\<open>update_excel_to_json.py\<close>)\<close>

text \<open>
  A language file is missing, empty, not JSON, or holds a JSON object. The table has the
  column \<open>key\<close> first and one column for each language after it; a cell is \<open>None\<close> where
  \<open>pd.notna\<close> is false. \<open>update_language_files\<close> loads the file of every language column
  (an unreadable one as the empty dictionary), assigns every present cell, and writes every
  loaded dictionary back.
\<close>

datatype 'v json_file = Missing | EmptyFile | Malformed | Object "(string \<times> 'v) list"
























section \<open>Reconciling the table with the locale files (\<open>scan_and_update\<close>)\<close>




























section \<open>Reading a locale file (\<open>parse_js_file\<close>)\<close>





















section \<open>Flattening and merging (\<open>flatten_dict\<close>, \<open>js_to_excel\<close>)\<close>

text \<open>
  A flattened entry is \<open>(class, key, value, order)\<close>. \<open>d.pop('__order__', list(d.keys()))\<close>
  gives the keys to visit: those of the dictionary, unless it has the key \<open>__order__\<close>, whose
  value is then iterated (the keys of a dictionary, the characters of a string).
\<close>

type_synonym flat_item = "string \<times> string \<times> node \<times> nat"

definition order_keys :: "pydict \<Rightarrow> string list" where
  "order_keys d =
     (case map_of d ''__order__'' of
        None \<Rightarrow> map fst d
      | Some (Dict ks) \<Rightarrow> map fst ks
      | Some (Leaf s) \<Rightarrow> map (\<lambda>c. [c]) s)"

definition flatten_subsub :: "string \<Rightarrow> string \<Rightarrow> nat \<Rightarrow> nat \<Rightarrow> nat \<times> string \<times> node \<Rightarrow> flat_item" where
  "flatten_subsub class_name sub_k idx sub_idx e =
     (case e of (subsub_idx, subsub_k, subsub_v) \<Rightarrow>
        (class_name, sub_k @ ''.'' @ subsub_k, subsub_v, idx * 10000 + sub_idx * 100 + subsub_idx))"

definition flatten_sub :: "string \<Rightarrow> nat \<Rightarrow> nat \<times> string \<times> node \<Rightarrow> flat_item list" where
  "flatten_sub class_name idx e =
     (case e of (sub_idx, sub_k, sub_v) \<Rightarrow>
        (case sub_v of
           Dict sv \<Rightarrow> map (flatten_subsub class_name sub_k idx sub_idx) (enumerate 0 sv)
         | Leaf s \<Rightarrow> [(class_name, sub_k, sub_v, idx * 10000 + sub_idx)]))"

definition flatten_key :: "string \<Rightarrow> pydict \<Rightarrow> nat \<times> string \<Rightarrow> flat_item list" where
  "flatten_key parent_key d e =
     (case e of (idx, k) \<Rightarrow>
        (case map_of d k of
           None \<Rightarrow> []
         | Some (Dict v) \<Rightarrow> concat (map (flatten_sub k idx) (enumerate 0 v))
         | Some (Leaf s) \<Rightarrow> [(parent_key, k, Leaf s, idx)]))"

definition flatten_dict :: "pydict \<Rightarrow> string \<Rightarrow> flat_item list" where
  "flatten_dict d parent_key =
     concat (map (flatten_key parent_key (AList.delete ''__order__'' d)) (enumerate 0 (order_keys d)))"




























text \<open>
  The ranks of a group that mixes strings and dictionaries also collide: a sub-key weighs
  100 under a dictionary and 1 beside it.
\<close>

lemma flatten_dict_mixed_levels_collide:
  "flatten_dict [(''g'', Dict [(''a'', Dict [(''x'', Leaf ''1''), (''y'', Leaf ''2'')]),
                              (''b'', Leaf ''3'')])] [] =
     [(''g'', ''a.x'', Leaf ''1'', 0), (''g'', ''a.y'', Leaf ''2'', 1), (''g'', ''b'', Leaf ''3'', 1)]"
  by (simp add: flatten_dict_def order_keys_def flatten_key_def flatten_sub_def
      flatten_subsub_def enumerate_eq_zip upt_rec)

subsection \<open>The merge of \<open>js_to_excel\<close>\<close>































end
